theory Spec2Isabelle
  imports Main
begin

section \<open>Python values and exceptions\<close>

text \<open>
  The exceptions the modelled code can raise or receive. Only subclasses of Python's
  \<^verbatim>\<open>Exception\<close> are modelled: they are what \<^verbatim>\<open>except Exception\<close> catches.
  \<open>ExternalError\<close> is an exception raised inside an external collaborator (the agent
  graph, the LLM client, the dataset loader, the vector store); its argument is the text
  that \<^verbatim>\<open>str(e)\<close> gives.
\<close>

datatype py_exn =
    ValueError string
  | KeyError string
  | TypeError string
  | AttributeError string
  | ExternalError string

text \<open>
  \<^verbatim>\<open>str(e)\<close>. For a \<^verbatim>\<open>KeyError\<close> it is the \<^verbatim>\<open>repr\<close> of the missing key: the key
  between single quotes (the keys used by the code contain no quote and no escape).
\<close>

fun exn_str :: "py_exn \<Rightarrow> string" where
  "exn_str (ValueError m) = m"
| "exn_str (KeyError k) = [CHR 0x27] @ k @ [CHR 0x27]"
| "exn_str (TypeError m) = m"
| "exn_str (AttributeError m) = m"
| "exn_str (ExternalError m) = m"

section \<open>Chunker: \<^verbatim>\<open>chunk_text\<close> of main.py\<close>

text \<open>
  Text is a \<open>string\<close>; a \<open>char\<close> stands for one code point below 256.
  \<open>py_isspace\<close> is Python's \<^verbatim>\<open>str.isspace\<close> on those code points: TAB, LF, VT, FF,
  CR, the separators 0x1C to 0x1F, SPACE, NEL (0x85) and NBSP (0xA0). \<^verbatim>\<open>str.strip()\<close>
  removes leading and trailing characters of that kind.
\<close>

definition py_isspace :: "char \<Rightarrow> bool" where
  "py_isspace c =
     (let n = (of_char c :: nat)
      in (9 \<le> n \<and> n \<le> 13) \<or> (28 \<le> n \<and> n \<le> 32) \<or> n = 133 \<or> n = 160)"

definition py_strip :: "string \<Rightarrow> string" where
  "py_strip s = rev (dropWhile py_isspace (rev (dropWhile py_isspace s)))"

text \<open>
  Python's slice \<^verbatim>\<open>xs[i:j]\<close> with integer bounds: a negative bound counts from the
  end, and every bound is clamped to the range of the list.
\<close>

definition slice_bound :: "nat \<Rightarrow> int \<Rightarrow> nat" where
  "slice_bound n k = (if k < 0 then nat (max (k + int n) 0) else min (nat k) n)"

definition py_slice :: "'a list \<Rightarrow> int \<Rightarrow> int \<Rightarrow> 'a list" where
  "py_slice xs i j =
     (let lo = slice_bound (length xs) i; hi = slice_bound (length xs) j
      in take (hi - lo) (drop lo xs))"

text \<open>
  Python's \<^verbatim>\<open>range(start, stop, step)\<close> as the list of its values: it counts up for
  a positive step and down for a negative one, and raises \<^verbatim>\<open>ValueError\<close> for a step
  of zero.
\<close>

function range_from :: "int \<Rightarrow> int \<Rightarrow> int \<Rightarrow> int list" where
  "range_from i stop step =
     (if (0 < step \<and> i < stop) \<or> (step < 0 \<and> stop < i)
      then i # range_from (i + step) stop step
      else [])"
  by pat_completeness auto
termination
  by (relation "measure (\<lambda>(i, stop, step). nat (if 0 < step then stop - i else i - stop))") auto

declare range_from.simps [simp del]

definition py_range :: "int \<Rightarrow> int \<Rightarrow> int \<Rightarrow> py_exn + int list" where
  "py_range start stop step =
     (if step = 0 then Inl (ValueError ''range() arg 3 must not be zero'')
      else Inr (range_from start stop step))"

text \<open>
  One pass of the loop body of \<^verbatim>\<open>chunk_text\<close> at offset \<open>i\<close>:
  \<^verbatim>\<open>
      chunk = text[i : i + chunk_size]
      if chunk.strip():
          chunks.append(chunk)
  \<close>
\<close>

definition chunk_step :: "string \<Rightarrow> int \<Rightarrow> string list \<Rightarrow> int \<Rightarrow> string list" where
  "chunk_step text chunk_size chunks i =
     (let chunk = py_slice text i (i + chunk_size)
      in if py_strip chunk \<noteq> [] then chunks @ [chunk] else chunks)"

text \<open>
  \<^verbatim>\<open>chunk_text(text, chunk_size=5000, overlap=100)\<close>: the loop
  \<^verbatim>\<open>for i in range(0, text_length, chunk_size - overlap)\<close> folds the loop body over
  the offsets. The two \<^verbatim>\<open>logger.debug\<close> calls at the end do not change the result.
\<close>

definition chunk_text :: "string \<Rightarrow> int \<Rightarrow> int \<Rightarrow> py_exn + string list" where
  "chunk_text text chunk_size overlap =
     (case py_range 0 (int (length text)) (chunk_size - overlap) of
        Inl e \<Rightarrow> Inl e
      | Inr offsets \<Rightarrow> Inr (foldl (chunk_step text chunk_size) [] offsets))"

definition chunk_text_default :: "string \<Rightarrow> py_exn + string list" where
  "chunk_text_default text = chunk_text text 5000 100"

section \<open>Data loader: \<^verbatim>\<open>load_pubmed_data\<close> of data_loader/data_loader.py\<close>

text \<open>
  A row of the dataset is a dict from column names to values; the columns the loader reads
  are text columns, so a value is a \<^verbatim>\<open>str\<close> or \<^verbatim>\<open>None\<close>. \<^verbatim>\<open>item[key]\<close> raises
  \<^verbatim>\<open>KeyError\<close> for a missing column.
\<close>

type_synonym item = "(string \<times> string option) list"

definition item_get :: "item \<Rightarrow> string \<Rightarrow> py_exn + string option" where
  "item_get item key = (case map_of item key of None \<Rightarrow> Inl (KeyError key) | Some v \<Rightarrow> Inr v)"

text \<open>The dict the loader builds for a row, with its five keys as fields.\<close>

record document =
  doc_id :: "string option"
  doc_title :: "string option"
  doc_content :: "string option"
  doc_contents :: "string option"
  doc_PMID :: "string option"

definition format_item :: "item \<Rightarrow> py_exn + document" where
  "format_item item =
     (case item_get item ''char_url'' of Inl e \<Rightarrow> Inl e | Inr i \<Rightarrow>
      case item_get item ''topic_name'' of Inl e \<Rightarrow> Inl e | Inr t \<Rightarrow>
      case item_get item ''all_txt'' of Inl e \<Rightarrow> Inl e | Inr c \<Rightarrow>
      case item_get item ''topic_lesson_url'' of Inl e \<Rightarrow> Inl e | Inr u \<Rightarrow>
      case item_get item ''char_url'' of Inl e \<Rightarrow> Inl e | Inr p \<Rightarrow>
        Inr \<lparr>doc_id = i, doc_title = t, doc_content = c, doc_contents = u, doc_PMID = p\<rparr>)"

text \<open>The list comprehension over the rows: the first row that raises ends it.\<close>

fun format_items :: "item list \<Rightarrow> py_exn + document list" where
  "format_items [] = Inr []"
| "format_items (item # rest) =
     (case format_item item of Inl e \<Rightarrow> Inl e | Inr d \<Rightarrow>
      case format_items rest of Inl e \<Rightarrow> Inl e | Inr ds \<Rightarrow> Inr (d # ds))"

text \<open>What the ingestion code prints, one constructor for each \<^verbatim>\<open>print\<close> of the source,
  carrying the values the message is formatted from.\<close>

datatype printed =
    ErrorLoadingPubMedData py_exn
  | DocumentWithoutPMID "string option"
  | InsertedBatch int
  | ErrorInsertingBatch int py_exn
  | ErrorInsertingChunk py_exn

text \<open>
  \<^verbatim>\<open>load_pubmed_data(start_idx=500, num_samples=100)\<close>. The first argument of the model
  is what \<^verbatim>\<open>list(load_dataset(...))\<close> gives: the rows of the train split, or the exception
  raised while loading or reading them. The result is the returned list with what was printed.
\<close>

definition load_pubmed_data ::
  "(py_exn + item list) \<Rightarrow> int \<Rightarrow> int \<Rightarrow> document list \<times> printed list" where
  "load_pubmed_data dataset start_idx num_samples =
     (case dataset of
        Inl e \<Rightarrow> ([], [ErrorLoadingPubMedData e])
      | Inr subset_list \<Rightarrow>
          (case format_items subset_list of
             Inl e \<Rightarrow> ([], [ErrorLoadingPubMedData e])
           | Inr documents \<Rightarrow> (documents, [])))"

section \<open>Ingestion: \<^verbatim>\<open>create_new_vector_store\<close> of main.py\<close>

text \<open>The record built for one chunk; \<open>'e\<close> is the type of an embedding vector.\<close>

record 'e chunk_record =
  rec_title :: "string option"
  rec_pmid :: string
  rec_content :: string
  rec_chunk_id :: nat
  rec_original_id :: "string option"
  rec_total_chunks :: nat
  rec_embedding :: 'e

text \<open>
  The external collaborators of the ingestion: the dataset, the constructor of the
  sentence-transformer model (which may raise), its \<^verbatim>\<open>encode\<close>, and the vector store's
  \<^verbatim>\<open>table("pubmed_documents").upsert(batch).execute()\<close>, which takes the store from one
  state to the next and may raise.
\<close>

record ('e, 'db) ingest_env =
  env_dataset :: "py_exn + item list"
  env_load_model :: "py_exn option"
  env_encode :: "string \<Rightarrow> py_exn + 'e"
  env_upsert :: "'db \<Rightarrow> 'e chunk_record list \<Rightarrow> py_exn option \<times> 'db"

text \<open>The inner loop \<^verbatim>\<open>for idx, chunk in enumerate(chunks)\<close> for one document.\<close>

fun embed_chunks ::
  "(string \<Rightarrow> py_exn + 'e) \<Rightarrow> document \<Rightarrow> string \<Rightarrow> nat \<Rightarrow> nat \<Rightarrow> string list \<Rightarrow>
   py_exn + 'e chunk_record list" where
  "embed_chunks enc doc pmid n_total idx [] = Inr []"
| "embed_chunks enc doc pmid n_total idx (chunk # rest) =
     (case enc chunk of Inl e \<Rightarrow> Inl e | Inr embedding \<Rightarrow>
      case embed_chunks enc doc pmid n_total (Suc idx) rest of Inl e \<Rightarrow> Inl e | Inr recs \<Rightarrow>
        Inr (\<lparr>rec_title = doc_title doc, rec_pmid = pmid, rec_content = chunk,
              rec_chunk_id = idx, rec_original_id = doc_id doc, rec_total_chunks = n_total,
              rec_embedding = embedding\<rparr> # recs))"

text \<open>
  The loop \<^verbatim>\<open>for doc in documents\<close>: a document whose PMID is \<^verbatim>\<open>None\<close> or empty is
  reported and skipped; \<^verbatim>\<open>chunk_text(None)\<close> raises \<^verbatim>\<open>TypeError\<close> at \<^verbatim>\<open>len(text)\<close>.
  The result is what was printed, with the records collected or the exception that ended
  the loop.
\<close>

fun prepare_records ::
  "(string \<Rightarrow> py_exn + 'e) \<Rightarrow> document list \<Rightarrow> printed list \<times> (py_exn + 'e chunk_record list)" where
  "prepare_records enc [] = ([], Inr [])"
| "prepare_records enc (doc # docs) =
     (case doc_PMID doc of
        None \<Rightarrow>
          (let (out, r) = prepare_records enc docs in (DocumentWithoutPMID (doc_id doc) # out, r))
      | Some pmid \<Rightarrow>
          if pmid = [] then
            (let (out, r) = prepare_records enc docs in (DocumentWithoutPMID (doc_id doc) # out, r))
          else
            (case doc_content doc of
               None \<Rightarrow> ([], Inl (TypeError (''object of type '' @ [CHR 0x27] @ ''NoneType'' @ [CHR 0x27] @ '' has no len()'')))
             | Some text \<Rightarrow>
                 (case chunk_text_default text of
                    Inl e \<Rightarrow> ([], Inl e)
                  | Inr chunks \<Rightarrow>
                      (case embed_chunks enc doc pmid (length chunks) 0 chunks of
                         Inl e \<Rightarrow> ([], Inl e)
                       | Inr recs \<Rightarrow>
                           (let (out, r) = prepare_records enc docs
                            in (out, case r of Inl e \<Rightarrow> Inl e | Inr later \<Rightarrow> Inr (recs @ later)))))))"

text \<open>
  The state of the batch loop: the store, what was printed, and the batches handed to
  \<^verbatim>\<open>upsert\<close> so far, in order.
\<close>

record ('r, 'db) batch_state =
  bs_db :: 'db
  bs_printed :: "printed list"
  bs_attempted :: "'r list list"

definition batch_size :: int where
  "batch_size = 50"

text \<open>
  One pass of the loop \<^verbatim>\<open>for i in range(0, len(data), batch_size)\<close>:
  \<^verbatim>\<open>
      batch = data[i : i + batch_size]
      try:
          result = supabase_instance.table("pubmed_documents").upsert(batch).execute()
          print(f"Inserted batch {i//batch_size + 1}")
      except Exception as e:
          print(f"Error inserting batch {i//batch_size + 1}: {e}")
  \<close>
\<close>

definition upsert_batch ::
  "('db \<Rightarrow> 'r list \<Rightarrow> py_exn option \<times> 'db) \<Rightarrow> 'r list \<Rightarrow> ('r, 'db) batch_state \<Rightarrow> int \<Rightarrow>
   ('r, 'db) batch_state" where
  "upsert_batch upsert data st i =
     (let batch = py_slice data i (i + batch_size);
          (res, db') = upsert (bs_db st) batch
      in \<lparr>bs_db = db',
          bs_printed = bs_printed st @
            [case res of None \<Rightarrow> InsertedBatch (i div batch_size + 1)
             | Some e \<Rightarrow> ErrorInsertingBatch (i div batch_size + 1) e],
          bs_attempted = bs_attempted st @ [batch]\<rparr>)"

definition upsert_batches ::
  "('db \<Rightarrow> 'r list \<Rightarrow> py_exn option \<times> 'db) \<Rightarrow> 'db \<Rightarrow> 'r list \<Rightarrow> ('r, 'db) batch_state" where
  "upsert_batches upsert db data =
     foldl (upsert_batch upsert data) \<lparr>bs_db = db, bs_printed = [], bs_attempted = []\<rparr>
       (range_from 0 (int (length data)) batch_size)"

text \<open>
  \<^verbatim>\<open>create_new_vector_store(supabase_instance, start_idx=500, num_samples=100)\<close> on a
  store in state \<open>db\<close>. An exception before the batch loop is caught by the outer handler,
  which prints it; the batch loop then never runs. The \<^verbatim>\<open>logger.debug\<close> calls are below
  the configured level and are left out.
\<close>

definition create_new_vector_store ::
  "('e, 'db) ingest_env \<Rightarrow> 'db \<Rightarrow> int \<Rightarrow> int \<Rightarrow> ('e chunk_record, 'db) batch_state" where
  "create_new_vector_store env db start_idx num_samples =
     (let (documents, out0) = load_pubmed_data (env_dataset env) start_idx num_samples
      in case env_load_model env of
           Some e \<Rightarrow> \<lparr>bs_db = db, bs_printed = out0 @ [ErrorInsertingChunk e], bs_attempted = []\<rparr>
         | None \<Rightarrow>
             (case prepare_records (env_encode env) documents of
                (out1, Inl e) \<Rightarrow>
                  \<lparr>bs_db = db, bs_printed = out0 @ out1 @ [ErrorInsertingChunk e], bs_attempted = []\<rparr>
              | (out1, Inr data) \<Rightarrow>
                  (let st = upsert_batches (env_upsert env) db data
                   in st\<lparr>bs_printed := out0 @ out1 @ bs_printed st\<rparr>)))"

text \<open>
  Batch isolation as the specification words it. \<open>split_batches\<close> cuts the records into
  sequential batches of at most \<open>n\<close>. \<open>batch_run\<close> submits the batches one after the
  other to the store, numbered from \<open>k\<close>: each batch is handed to \<^verbatim>\<open>upsert\<close> in the
  state the store is in by then, its success or its failure is recorded under its number,
  and the run goes on with the next batch in either case. The result is the final state of
  the store with the lines recorded.
\<close>

function split_batches :: "nat \<Rightarrow> 'r list \<Rightarrow> 'r list list" where
  "split_batches n xs =
     (if n = 0 \<or> xs = [] then [] else take n xs # split_batches n (drop n xs))"
  by pat_completeness auto
termination
  by (relation "measure (\<lambda>(n, xs). length xs)") auto

declare split_batches.simps [simp del]

fun batch_run ::
  "('db \<Rightarrow> 'r list \<Rightarrow> py_exn option \<times> 'db) \<Rightarrow> 'db \<Rightarrow> int \<Rightarrow> 'r list list \<Rightarrow>
   'db \<times> printed list" where
  "batch_run upsert db k [] = (db, [])"
| "batch_run upsert db k (batch # rest) =
     (let outcome = upsert db batch;
          later = batch_run upsert (snd outcome) (k + 1) rest
      in (fst later,
          (case fst outcome of
             None \<Rightarrow> InsertedBatch k
           | Some e \<Rightarrow> ErrorInsertingBatch k e) # snd later))"

section \<open>RAG pipeline: rag/rag_pipeline.py\<close>

subsection \<open>Values returned by the agent\<close>

text \<open>
  The values the agent graph hands back are duck-typed in the source. The model has
  \<^verbatim>\<open>None\<close>, strings, lists and dicts with string keys (an association list in insertion
  order). A list or dict carries, as its first argument, the text that \<^verbatim>\<open>str()\<close> gives
  for it: the source only formats such a value into an f-string, and the model does not
  compute the \<^verbatim>\<open>repr\<close> of its elements.
\<close>

datatype pyval =
    PNone
  | PStr string
  | PList string "pyval list"
  | PDict string "(string \<times> pyval) list"

fun py_str :: "pyval \<Rightarrow> string" where
  "py_str PNone = ''None''"
| "py_str (PStr s) = s"
| "py_str (PList r xs) = r"
| "py_str (PDict r kvs) = r"

fun py_type_name :: "pyval \<Rightarrow> string" where
  "py_type_name PNone = ''NoneType''"
| "py_type_name (PStr s) = ''str''"
| "py_type_name (PList r xs) = ''list''"
| "py_type_name (PDict r kvs) = ''dict''"

text \<open>\<^verbatim>\<open>k in s\<close> for two strings: \<open>k\<close> occurs in \<open>s\<close> as a substring.\<close>

fun str_contains :: "string \<Rightarrow> string \<Rightarrow> bool" where
  "str_contains k [] = (k = [])"
| "str_contains k (c # cs) = (take (length k) (c # cs) = k \<or> str_contains k cs)"

definition quoted :: "string \<Rightarrow> string" where
  "quoted s = [CHR 0x27] @ s @ [CHR 0x27]"

text \<open>
  \<^verbatim>\<open>k in v\<close> for a string \<open>k\<close>: key membership for a dict, element membership for a
  list, substring test for a string, \<^verbatim>\<open>TypeError\<close> for \<^verbatim>\<open>None\<close>. The texts of the
  \<^verbatim>\<open>TypeError\<close>s are those of CPython 3.12.
\<close>

fun py_in :: "string \<Rightarrow> pyval \<Rightarrow> py_exn + bool" where
  "py_in k PNone =
     Inl (TypeError (''argument of type '' @ quoted ''NoneType'' @ '' is not iterable''))"
| "py_in k (PStr s) = Inr (str_contains k s)"
| "py_in k (PList r xs) = Inr (PStr k \<in> set xs)"
| "py_in k (PDict r kvs) = Inr (k \<in> set (map fst kvs))"

text \<open>\<^verbatim>\<open>v[k]\<close> for a string \<open>k\<close>.\<close>

fun py_getitem :: "pyval \<Rightarrow> string \<Rightarrow> py_exn + pyval" where
  "py_getitem PNone k =
     Inl (TypeError (quoted ''NoneType'' @ '' object is not subscriptable''))"
| "py_getitem (PStr s) k =
     Inl (TypeError (''string indices must be integers, not '' @ quoted ''str''))"
| "py_getitem (PList r xs) k =
     Inl (TypeError ''list indices must be integers or slices, not str'')"
| "py_getitem (PDict r kvs) k =
     (case map_of kvs k of None \<Rightarrow> Inl (KeyError k) | Some v \<Rightarrow> Inr v)"

text \<open>The values \<^verbatim>\<open>for x in v\<close> runs over: the elements of a list, the keys of a dict,
  the characters of a string.\<close>

fun py_iter :: "pyval \<Rightarrow> py_exn + pyval list" where
  "py_iter PNone = Inl (TypeError (quoted ''NoneType'' @ '' object is not iterable''))"
| "py_iter (PStr s) = Inr (map (\<lambda>c. PStr [c]) s)"
| "py_iter (PList r xs) = Inr xs"
| "py_iter (PDict r kvs) = Inr (map (\<lambda>kv. PStr (fst kv)) kvs)"

text \<open>\<^verbatim>\<open>s += v\<close> for a string \<open>s\<close>.\<close>

definition str_add :: "string \<Rightarrow> pyval \<Rightarrow> py_exn + string" where
  "str_add s v =
     (case v of
        PStr t \<Rightarrow> Inr (s @ t)
      | _ \<Rightarrow> Inl (TypeError (''can only concatenate str (not '' @ [CHR 0x22] @ py_type_name v @
                 [CHR 0x22] @ '') to str'')))"

subsection \<open>\<^verbatim>\<open>PubMedRAG._extract_tool_outputs\<close>\<close>

definition NL :: string where
  "NL = [CHR 0x0A]"

text \<open>
  The first \<^verbatim>\<open>if\<close>/\<^verbatim>\<open>elif\<close> of the loop body: the query sent to the tool, appended
  to the text collected so far.
  \<^verbatim>\<open>
      if "tool_input" in step:
          collected_info += f"Tool query: {step['tool_input']}\n"
      elif "action" in step and "action_input" in step["action"]:
          collected_info += f"Tool query: {step['action']['action_input']}\n"
  \<close>
\<close>

definition extract_query :: "string \<Rightarrow> pyval \<Rightarrow> py_exn + string" where
  "extract_query collected_info step =
     (case py_in ''tool_input'' step of Inl e \<Rightarrow> Inl e
      | Inr True \<Rightarrow>
          (case py_getitem step ''tool_input'' of Inl e \<Rightarrow> Inl e
           | Inr v \<Rightarrow> Inr (collected_info @ ''Tool query: '' @ py_str v @ NL))
      | Inr False \<Rightarrow>
          (case py_in ''action'' step of Inl e \<Rightarrow> Inl e
           | Inr False \<Rightarrow> Inr collected_info
           | Inr True \<Rightarrow>
               (case py_getitem step ''action'' of Inl e \<Rightarrow> Inl e
                | Inr action \<Rightarrow>
                    (case py_in ''action_input'' action of Inl e \<Rightarrow> Inl e
                     | Inr False \<Rightarrow> Inr collected_info
                     | Inr True \<Rightarrow>
                         (case py_getitem action ''action_input'' of Inl e \<Rightarrow> Inl e
                          | Inr v \<Rightarrow> Inr (collected_info @ ''Tool query: '' @ py_str v @ NL))))))"

text \<open>
  The second \<^verbatim>\<open>if\<close>/\<^verbatim>\<open>elif\<close>: the output of the tool.
  \<^verbatim>\<open>
      if "tool_output" in step:
          collected_info += f"Tool output: {step['tool_output']}\n\n"
      elif "observation" in step:
          collected_info += f"Tool output: {step['observation']}\n\n"
  \<close>
\<close>

definition extract_output :: "string \<Rightarrow> pyval \<Rightarrow> py_exn + string" where
  "extract_output collected_info step =
     (case py_in ''tool_output'' step of Inl e \<Rightarrow> Inl e
      | Inr True \<Rightarrow>
          (case py_getitem step ''tool_output'' of Inl e \<Rightarrow> Inl e
           | Inr v \<Rightarrow> Inr (collected_info @ ''Tool output: '' @ py_str v @ NL @ NL))
      | Inr False \<Rightarrow>
          (case py_in ''observation'' step of Inl e \<Rightarrow> Inl e
           | Inr False \<Rightarrow> Inr collected_info
           | Inr True \<Rightarrow>
               (case py_getitem step ''observation'' of Inl e \<Rightarrow> Inl e
                | Inr v \<Rightarrow> Inr (collected_info @ ''Tool output: '' @ py_str v @ NL @ NL))))"

text \<open>The loop \<^verbatim>\<open>for step in agent_result["intermediate_steps"]\<close>.\<close>

fun extract_steps :: "string \<Rightarrow> pyval list \<Rightarrow> py_exn + string" where
  "extract_steps collected_info [] = Inr collected_info"
| "extract_steps collected_info (step # steps) =
     (case extract_query collected_info step of Inl e \<Rightarrow> Inl e
      | Inr info1 \<Rightarrow>
          (case extract_output info1 step of Inl e \<Rightarrow> Inl e
           | Inr info2 \<Rightarrow> extract_steps info2 steps))"

definition extract_tool_outputs :: "pyval \<Rightarrow> py_exn + string" where
  "extract_tool_outputs agent_result =
     (case py_in ''intermediate_steps'' agent_result of Inl e \<Rightarrow> Inl e
      | Inr False \<Rightarrow> Inr []
      | Inr True \<Rightarrow>
          (case py_getitem agent_result ''intermediate_steps'' of Inl e \<Rightarrow> Inl e
           | Inr v \<Rightarrow>
               (case py_iter v of Inl e \<Rightarrow> Inl e
                | Inr steps \<Rightarrow> extract_steps [] steps)))"

subsection \<open>The orchestrator and its collaborators\<close>

text \<open>
  Objects are known by reference. A Python iterator handed out by a collaborator is
  modelled by what a consumer sees of it: the items it yields, then either its end or the
  exception it raises. (An iterator that never ends is outside the model.)
\<close>

type_synonym ref = nat

datatype 'a pystream = PyStream (stream_items: "'a list") (stream_failure: "py_exn option")

type_synonym messages = "(string \<times> string) list"

type_synonym config = "(string \<times> int) list"

text \<open>
  The behaviour of the external collaborators at query time: the compiled agent graph
  (\<^verbatim>\<open>rag_chain.stream(input, config)\<close> and \<^verbatim>\<open>rag_chain.invoke(input)\<close>, on the
  messages of the input dict and the optional config), and the chat model
  (\<^verbatim>\<open>llm.stream(prompt)\<close>, given by the \<^verbatim>\<open>content\<close> of each chunk).
\<close>

record rag_env =
  agent_stream :: "ref \<Rightarrow> messages \<Rightarrow> config option \<Rightarrow> pyval pystream"
  agent_invoke :: "ref \<Rightarrow> messages \<Rightarrow> config option \<Rightarrow> py_exn + pyval"
  llm_stream :: "ref \<Rightarrow> string \<Rightarrow> string pystream"

text \<open>The calls a query makes on its collaborators, in order.\<close>

datatype ext_call =
    AgentStream ref messages "config option"
  | AgentInvoke ref messages "config option"
  | LlmStream ref string

text \<open>The fields of a \<^verbatim>\<open>PubMedRAG\<close> instance.\<close>

record pubmed_rag =
  llm :: "ref option"
  rag_chain :: "ref option"
  supabase_client :: ref

definition RECURSION_LIMIT :: int where
  "RECURSION_LIMIT = 2 * 5 + 1"

definition not_initialized :: py_exn where
  "not_initialized = ValueError ''RAG chain not initialized. Call initialize() first.''"

definition error_response :: "py_exn \<Rightarrow> string" where
  "error_response e = ''Error generating response: '' @ exn_str e"

subsection \<open>\<^verbatim>\<open>PubMedRAG.query\<close>\<close>

text \<open>
  The loop body \<^verbatim>\<open>response_content += chunk["content"]\<close> over the chunks the agent
  streamed.
\<close>

fun accumulate_content :: "string \<Rightarrow> pyval list \<Rightarrow> py_exn + string" where
  "accumulate_content response_content [] = Inr response_content"
| "accumulate_content response_content (chunk # chunks) =
     (case py_getitem chunk ''content'' of Inl e \<Rightarrow> Inl e
      | Inr v \<Rightarrow>
          (case str_add response_content v of Inl e \<Rightarrow> Inl e
           | Inr content' \<Rightarrow> accumulate_content content' chunks))"

text \<open>
  The body of the \<^verbatim>\<open>try\<close> of \<^verbatim>\<open>query\<close>: the text accumulated, or the first exception,
  raised by a chunk or by the agent's stream after its last chunk.
\<close>

definition query_messages :: "string \<Rightarrow> messages" where
  "query_messages question = [(''human'', question)]"

definition query_config :: "config option" where
  "query_config = Some [(''recursion_limit'', RECURSION_LIMIT)]"

definition query_try :: "rag_env \<Rightarrow> ref \<Rightarrow> string \<Rightarrow> py_exn + string" where
  "query_try env chain question =
     (let st = agent_stream env chain (query_messages question) query_config
      in case accumulate_content [] (stream_items st) of
           Inl e \<Rightarrow> Inl e
         | Inr response_content \<Rightarrow>
             (case stream_failure st of Some e \<Rightarrow> Inl e | None \<Rightarrow> Inr response_content))"

text \<open>
  What a call of \<^verbatim>\<open>query\<close> does: the value returned (\<open>Inr\<close>) or the exception that
  leaves the call (\<open>Inl\<close>), the calls made on the collaborators, and the messages given
  to \<^verbatim>\<open>logger.error\<close>. (\<^verbatim>\<open>logger.debug\<close> is below the configured level.)
\<close>

record query_run =
  q_returned :: "py_exn + string"
  q_calls :: "ext_call list"
  q_errors :: "string list"

definition query :: "rag_env \<Rightarrow> pubmed_rag \<Rightarrow> string \<Rightarrow> query_run" where
  "query env self question =
     (case rag_chain self of
        None \<Rightarrow> \<lparr>q_returned = Inl not_initialized, q_calls = [], q_errors = []\<rparr>
      | Some chain \<Rightarrow>
          (case query_try env chain question of
             Inr response_content \<Rightarrow>
               \<lparr>q_returned = Inr response_content,
                q_calls = [AgentStream chain (query_messages question) query_config],
                q_errors = []\<rparr>
           | Inl e \<Rightarrow>
               \<lparr>q_returned = Inr (error_response e),
                q_calls = [AgentStream chain (query_messages question) query_config],
                q_errors = [''Error in RAG query: '' @ exn_str e]\<rparr>))"

subsection \<open>\<^verbatim>\<open>PubMedRAG.query_stream\<close>\<close>

definition indent :: string where
  "indent = replicate 12 (CHR '' '')"

text \<open>The f-string \<^verbatim>\<open>summarization_prompt\<close>, line by line as the source lays it out.\<close>

definition summarization_prompt :: "string \<Rightarrow> string \<Rightarrow> string" where
  "summarization_prompt question collected_info =
     NL @
     indent @ ''Based on the following information collected about the query: '' @
       [CHR 0x22] @ question @ [CHR 0x22] @ NL @
     indent @ NL @
     indent @ collected_info @ NL @
     indent @ NL @
     indent @ ''Please provide a concise and accurate summary that directly answers the user's question.'' @ NL @
     indent"

text \<open>
  The body of the \<^verbatim>\<open>try\<close> of \<^verbatim>\<open>query_stream\<close>: the fragments it yields and the
  exception that ends it, if any, with the calls made on the collaborators. The agent is
  invoked with the input alone: no config is passed.
\<close>

definition stream_try ::
  "rag_env \<Rightarrow> pubmed_rag \<Rightarrow> ref \<Rightarrow> string \<Rightarrow> string pystream \<times> ext_call list" where
  "stream_try env self chain question =
     (let invoke = AgentInvoke chain (query_messages question) None
      in case agent_invoke env chain (query_messages question) None of
           Inl e \<Rightarrow> (PyStream [] (Some e), [invoke])
         | Inr agent_result \<Rightarrow>
             (case extract_tool_outputs agent_result of
                Inl e \<Rightarrow> (PyStream [] (Some e), [invoke])
              | Inr collected_info \<Rightarrow>
                  (case llm self of
                     None \<Rightarrow>
                       (PyStream []
                          (Some (AttributeError
                             (quoted ''NoneType'' @ '' object has no attribute '' @ quoted ''stream''))),
                        [invoke])
                   | Some model \<Rightarrow>
                       (let prompt = summarization_prompt question collected_info
                        in (llm_stream env model prompt, [invoke, LlmStream model prompt])))))"

text \<open>
  What consuming the generator \<^verbatim>\<open>query_stream(question)\<close> to its end does: the
  fragments yielded, the exception that leaves the generator (if any), the calls made on
  the collaborators and the messages given to \<^verbatim>\<open>logger.error\<close>. Nothing of the body
  runs before the first fragment is asked for.
\<close>

record stream_run =
  s_yielded :: "string list"
  s_raised :: "py_exn option"
  s_calls :: "ext_call list"
  s_errors :: "string list"

definition query_stream :: "rag_env \<Rightarrow> pubmed_rag \<Rightarrow> string \<Rightarrow> stream_run" where
  "query_stream env self question =
     (case rag_chain self of
        None \<Rightarrow> \<lparr>s_yielded = [], s_raised = Some not_initialized, s_calls = [], s_errors = []\<rparr>
      | Some chain \<Rightarrow>
          (let (st, calls) = stream_try env self chain question
           in case stream_failure st of
                None \<Rightarrow>
                  \<lparr>s_yielded = stream_items st, s_raised = None, s_calls = calls, s_errors = []\<rparr>
              | Some e \<Rightarrow>
                  \<lparr>s_yielded = stream_items st @ [error_response e], s_raised = None,
                   s_calls = calls,
                   s_errors = [''Error in RAG query stream: '' @ exn_str e]\<rparr>))"

subsection \<open>\<^verbatim>\<open>PubMedRAG.initialize\<close>\<close>

text \<open>
  The objects \<^verbatim>\<open>initialize\<close> constructs, each with the arguments it is built from.
  \<open>ChatModel\<close> is what \<^verbatim>\<open>create_llama_chat_model()\<close> returns.
\<close>

datatype component =
    SentenceTransformer string
  | SentenceTransformerEmbeddings ref
  | SupabaseVectorStore ref ref string string
  | VectorStoreRetriever ref int
  | MyRetriever
  | WikipediaRetriever
  | RetrieverTool ref string string
  | ChatModel
  | ReactAgent "ref option" "ref list" string

text \<open>
  The process state the method works on: the objects constructed so far (a reference is
  an index into the list) and the module-level variable \<^verbatim>\<open>supabase_vs_retriever\<close>.
\<close>

record world =
  heap :: "component list"
  supabase_vs_retriever :: "ref option"

definition new_object :: "component \<Rightarrow> world \<Rightarrow> ref \<times> world" where
  "new_object c w = (length (heap w), w\<lparr>heap := heap w @ [c]\<rparr>)"

definition system_message :: string where
  "system_message = ''You are a medical research assistant with expertise in analyzing PubMed papers. Use the following pieces of context from research papers to answer the user's question. If you don't know the answer, just say you don't know. Don't try to make up an answer But help the user with the information that you got from the retrieval''"

text \<open>
  Modelled from the spec: \<^verbatim>\<open>create_llama_chat_model\<close> of rag/llm_integration.py is not
  among the sources; it constructs the client of the spec's LLM backend.
\<close>

definition initialize_llm :: "world \<times> pubmed_rag \<Rightarrow> world \<times> pubmed_rag" where
  "initialize_llm ws =
     (let (w, self) = ws; (model, w') = new_object ChatModel w
      in (w', self\<lparr>llm := Some model\<rparr>))"

definition initialize :: "world \<times> pubmed_rag \<Rightarrow> world \<times> pubmed_rag" where
  "initialize ws =
     (let (w, self) = ws;
          (st_model, w) = new_object (SentenceTransformer ''all-MiniLM-L6-v2'') w;
          (inner_model, w) = new_object (SentenceTransformer ''all-MiniLM-L6-v2'') w;
          (embedding_model, w) = new_object (SentenceTransformerEmbeddings inner_model) w;
          (vectorstore, w) =
            new_object (SupabaseVectorStore (supabase_client self) embedding_model
                          ''pubmed_documents'' ''match_documents'') w;
          (vs_retriever, w) = new_object (VectorStoreRetriever vectorstore 2) w;
          w = w\<lparr>supabase_vs_retriever := Some vs_retriever\<rparr>;
          (retriever, w) = new_object MyRetriever w;
          (retrieval_tool, w) =
            new_object (RetrieverTool retriever ''my_retriever''
              ''A tool to retrieve documents from my knowledge base created from PubMedCentral Database.'') w;
          (wiki, w) = new_object WikipediaRetriever w;
          (wiki_retriever, w) =
            new_object (RetrieverTool wiki ''wikipedia_retriever''
              ''Wikipedia retriever to search for medical terms and helping for information which is not in the knowledge base.'') w;
          (w, self) = (if llm self = None then initialize_llm (w, self) else (w, self))
      in if rag_chain self = None
         then (let (agent, w) =
                     new_object (ReactAgent (llm self) [retrieval_tool, wiki_retriever]
                                   system_message) w
               in (w, self\<lparr>rag_chain := Some agent\<rparr>))
         else (w, self))"

text \<open>
  The nine objects every call of \<open>initialize\<close> constructs before it looks at
  \<^verbatim>\<open>self.llm\<close> and \<^verbatim>\<open>self.rag_chain\<close>, for a process that holds \<open>n\<close> objects:
  two sentence-transformer models, the embeddings adapter, the vector store on the
  instance's client, its retriever with \<open>k = 2\<close>, the adapter retriever and its tool,
  the Wikipedia retriever and its tool.
\<close>

definition core_objects :: "nat \<Rightarrow> ref \<Rightarrow> component list" where
  "core_objects n client =
     [SentenceTransformer ''all-MiniLM-L6-v2'',
      SentenceTransformer ''all-MiniLM-L6-v2'',
      SentenceTransformerEmbeddings (n + 1),
      SupabaseVectorStore client (n + 2) ''pubmed_documents'' ''match_documents'',
      VectorStoreRetriever (n + 3) 2,
      MyRetriever,
      RetrieverTool (n + 5) ''my_retriever''
        ''A tool to retrieve documents from my knowledge base created from PubMedCentral Database.'',
      WikipediaRetriever,
      RetrieverTool (n + 7) ''wikipedia_retriever''
        ''Wikipedia retriever to search for medical terms and helping for information which is not in the knowledge base.'']"

text \<open>A new instance: \<^verbatim>\<open>PubMedRAG(supabase_client)\<close>.\<close>

definition new_rag :: "ref \<Rightarrow> pubmed_rag" where
  "new_rag client = \<lparr>llm = None, rag_chain = None, supabase_client = client\<rparr>"

subsection \<open>The evidence transcript\<close>

text \<open>
  The transcript as the specification words it: for each step of the tool-invocation
  phase, in order, the query sent to the tool and the output received. \<open>step_query\<close>
  and \<open>step_output\<close> read them off a step given as a dict: the query under
  \<^verbatim>\<open>tool_input\<close>, or else under \<^verbatim>\<open>action_input\<close> of the dict under \<^verbatim>\<open>action\<close>;
  the output under \<^verbatim>\<open>tool_output\<close>, or else under \<^verbatim>\<open>observation\<close>.
\<close>

definition step_query :: "pyval \<Rightarrow> pyval option" where
  "step_query step =
     (case step of
        PDict r kvs \<Rightarrow>
          (case map_of kvs ''tool_input'' of
             Some v \<Rightarrow> Some v
           | None \<Rightarrow>
               (case map_of kvs ''action'' of
                  Some (PDict ra action) \<Rightarrow> map_of action ''action_input''
                | _ \<Rightarrow> None))
      | _ \<Rightarrow> None)"

definition step_output :: "pyval \<Rightarrow> pyval option" where
  "step_output step =
     (case step of
        PDict r kvs \<Rightarrow>
          (case map_of kvs ''tool_output'' of
             Some v \<Rightarrow> Some v
           | None \<Rightarrow> map_of kvs ''observation'')
      | _ \<Rightarrow> None)"

definition step_transcript :: "pyval \<Rightarrow> string" where
  "step_transcript step =
     (case step_query step of None \<Rightarrow> [] | Some q \<Rightarrow> ''Tool query: '' @ py_str q @ NL) @
     (case step_output step of None \<Rightarrow> [] | Some out \<Rightarrow> ''Tool output: '' @ py_str out @ NL @ NL)"

definition evidence_transcript :: "pyval list \<Rightarrow> string" where
  "evidence_transcript steps = concat (map step_transcript steps)"

section \<open>Example runs\<close>

text \<open>
  Concrete collaborators and instances, used to evaluate the functions above. The instance
  \<open>ready_rag\<close> is the one \<open>initialize\<close> gives for a new instance in an empty
  process: the chat model is object 9 and the agent object 10.
\<close>

definition empty_world :: world where
  "empty_world = \<lparr>heap = [], supabase_vs_retriever = None\<rparr>"

definition ready_rag :: pubmed_rag where
  "ready_rag = \<lparr>llm = Some 9, rag_chain = Some 10, supabase_client = 0\<rparr>"

text \<open>An agent result that records two tool steps, one in each of the two layouts.\<close>

definition example_steps :: "pyval list" where
  "example_steps =
     [PDict ''step 1'' [(''tool_input'', PStr ''statins''), (''tool_output'', PStr ''doc A'')],
      PDict ''step 2'' [(''action'', PDict ''action 2'' [(''action_input'', PStr ''aspirin'')]),
                        (''observation'', PStr ''doc B'')]]"

definition example_result :: pyval where
  "example_result =
     PDict ''result'' [(''messages'', PList ''[]'' []),
                       (''intermediate_steps'', PList ''steps'' example_steps)]"

text \<open>An agent result with the messages only.\<close>

definition messages_only_result :: pyval where
  "messages_only_result = PDict ''result'' [(''messages'', PList ''[]'' [])]"

text \<open>Collaborators that succeed: the agent streams two chunks with text content, its
  invocation returns \<open>example_result\<close>, and the chat model streams two fragments.\<close>

definition example_env :: rag_env where
  "example_env =
     \<lparr>agent_stream = (\<lambda>chain msgs cfg.
         PyStream [PDict ''chunk'' [(''content'', PStr ''Hello '')],
                   PDict ''chunk'' [(''content'', PStr ''world'')]] None),
      agent_invoke = (\<lambda>chain msgs cfg. Inr example_result),
      llm_stream = (\<lambda>model prompt. PyStream [''Stat'', ''ins''] None)\<rparr>"

text \<open>The chat model streams one fragment and then fails.\<close>

definition failing_llm_env :: rag_env where
  "failing_llm_env =
     example_env\<lparr>llm_stream := (\<lambda>model prompt. PyStream [''Hel''] (Some (ExternalError ''boom'')))\<rparr>"

text \<open>The agent fails, in both of its entry points.\<close>

definition failing_agent_env :: rag_env where
  "failing_agent_env =
     example_env\<lparr>agent_stream := (\<lambda>chain msgs cfg. PyStream [] (Some (ExternalError ''no agent''))),
                 agent_invoke := (\<lambda>chain msgs cfg. Inl (ExternalError ''no agent''))\<rparr>"

text \<open>The agent's invocation returns the messages only.\<close>

definition messages_only_env :: rag_env where
  "messages_only_env = example_env\<lparr>agent_invoke := (\<lambda>chain msgs cfg. Inr messages_only_result)\<rparr>"

text \<open>
  The result of an agent run in which the retriever tool was called once: it holds the
  messages of the run (the question, the tool call, the tool's output, the final answer),
  each shown as a dict of its fields, and no other key.
\<close>

definition react_messages :: "pyval list" where
  "react_messages =
     [PDict ''human'' [(''type'', PStr ''human''), (''content'', PStr ''q'')],
      PDict ''ai'' [(''type'', PStr ''ai''), (''content'', PStr []),
                    (''tool_calls'',
                     PList ''calls''
                       [PDict ''call'' [(''name'', PStr ''my_retriever''),
                                        (''args'', PDict ''args'' [(''query'', PStr ''statins'')])]])],
      PDict ''tool'' [(''type'', PStr ''tool''), (''name'', PStr ''my_retriever''),
                      (''content'', PStr ''doc A'')],
      PDict ''ai'' [(''type'', PStr ''ai''), (''content'', PStr ''Statins lower LDL.'')]]"

definition react_result :: pyval where
  "react_result = PDict ''result'' [(''messages'', PList ''messages'' react_messages)]"

definition react_env :: rag_env where
  "react_env = example_env\<lparr>agent_invoke := (\<lambda>chain msgs cfg. Inr react_result)\<rparr>"

text \<open>A vector store kept as the list of the records it holds, whose upsert fails on
  the batch that starts with record 50 and appends every other batch.\<close>

definition flaky_upsert :: "nat list \<Rightarrow> nat list \<Rightarrow> py_exn option \<times> nat list" where
  "flaky_upsert db batch =
     (if batch \<noteq> [] \<and> hd batch = 50 then (Some (ExternalError ''timeout''), db)
      else (None, db @ batch))"

text \<open>An ingestion of one row, with a model that embeds every chunk as 0 and a store
  that appends every batch.\<close>

definition example_ingest_env :: "(nat, nat chunk_record list) ingest_env" where
  "example_ingest_env =
     \<lparr>env_dataset = Inr [[(''char_url'', Some ''url-1''), (''topic_name'', Some ''Topic''),
                          (''all_txt'', Some ''abc''), (''topic_lesson_url'', Some ''lesson'')]],
      env_load_model = None,
      env_encode = (\<lambda>chunk. Inr 0),
      env_upsert = (\<lambda>db batch. (None, db @ batch))\<rparr>"

section \<open>Properties of the chunker\<close>

lemmas chunk_eval =
  chunk_text_def py_range_def range_from.simps chunk_step_def py_slice_def slice_bound_def
  py_strip_def py_isspace_def Let_def

lemma range_from_bounds:
  "0 < step \<Longrightarrow> i \<in> set (range_from a stop step) \<Longrightarrow> a \<le> i \<and> i < stop"
proof (induction a stop step rule: range_from.induct)
  case (1 a stop step)
  show ?case
  proof (cases "a < stop")
    case True
    with "1.prems" have "i = a \<or> i \<in> set (range_from (a + step) stop step)"
      by (subst (asm) range_from.simps) auto
    then show ?thesis
    proof
      assume "i = a" with True show ?thesis by simp
    next
      assume "i \<in> set (range_from (a + step) stop step)"
      with "1.IH" "1.prems"(1) True have "a + step \<le> i \<and> i < stop" by simp
      with "1.prems"(1) show ?thesis by simp
    qed
  next
    case False
    with "1.prems" show ?thesis by (subst (asm) range_from.simps) auto
  qed
qed

lemma range_from_empty: "stop \<le> a \<Longrightarrow> 0 < step \<Longrightarrow> range_from a stop step = []"
  by (subst range_from.simps) simp

lemma range_from_first:
  "a < stop \<Longrightarrow> 0 < step \<Longrightarrow> range_from a stop step = a # range_from (a + step) stop step"
  by (subst range_from.simps) simp

lemma foldl_chunk_step:
  "foldl (chunk_step text cs) acc offs =
     acc @ filter (\<lambda>c. py_strip c \<noteq> []) (map (\<lambda>i. py_slice text i (i + cs)) offs)"
  by (induction offs arbitrary: acc) (simp_all add: chunk_step_def Let_def)

lemma py_slice_suffix:
  "0 \<le> i \<Longrightarrow> int (length xs) \<le> i + n \<Longrightarrow> py_slice xs i (i + n) = drop (nat i) xs"
  by (auto simp: py_slice_def slice_bound_def Let_def min_def)

lemma py_strip_nonempty: "py_strip text \<noteq> [] \<Longrightarrow> text \<noteq> []"
  by (auto simp: py_strip_def)

text \<open>
  Claim C6, as the code has it: chunking \<^verbatim>\<open>"ABCDEFGHIJ"\<close> with size 4 and overlap 1
  visits the offsets 0, 3, 6 and 9 (\<^verbatim>\<open>range(0, 10, 3)\<close>) and yields the four chunks
  \<^verbatim>\<open>"ABCD"\<close>, \<^verbatim>\<open>"DEFG"\<close>, \<^verbatim>\<open>"GHIJ"\<close> and \<^verbatim>\<open>"J"\<close>: the window at
  offset 9 is not empty after trimming, so it is kept.
\<close>

theorem chunk_text_example:
  "chunk_text ''ABCDEFGHIJ'' 4 1 = Inr [''ABCD'', ''DEFG'', ''GHIJ'', ''J'']
   \<and> py_range 0 (int (length ''ABCDEFGHIJ'')) (4 - 1) = Inr [0, 3, 6, 9]
   \<and> map (\<lambda>i. py_slice ''ABCDEFGHIJ'' i (i + 4)) [0, 3, 6, 9] =
       [''ABCD'', ''DEFG'', ''GHIJ'', ''J'']"
  by (simp add: chunk_eval)

text \<open>The three-chunk list of the example is not what the function returns.\<close>

theorem chunk_text_example_not_three:
  "chunk_text ''ABCDEFGHIJ'' 4 1 \<noteq> Inr [''ABCD'', ''DEFG'', ''GHIJ'']"
  by (simp add: chunk_eval)

text \<open>
  Claim C7, as the code has it: for a text that is non-empty after trimming and strictly
  shorter than \<open>chunk_size\<close>, with \<open>0 \<le> overlap < chunk_size\<close>, the first chunk is the
  whole text, and the chunks after it are the suffixes of the text at the further offsets
  of \<^verbatim>\<open>range(0, len(text), chunk_size - overlap)\<close> that are non-empty after trimming.
  The whole text is the only chunk when \<open>len(text) \<le> chunk_size - overlap\<close>.
\<close>

theorem chunk_text_short:
  assumes "py_strip text \<noteq> []"
    and "int (length text) < chunk_size"
    and "0 \<le> overlap"
    and "overlap < chunk_size"
  shows "chunk_text text chunk_size overlap =
           Inr (text # filter (\<lambda>c. py_strip c \<noteq> [])
                  (map (\<lambda>i. drop (nat i) text)
                     (range_from (chunk_size - overlap) (int (length text)) (chunk_size - overlap))))
         \<and> (int (length text) \<le> chunk_size - overlap \<longrightarrow>
              chunk_text text chunk_size overlap = Inr [text])"
proof -
  let ?step = "chunk_size - overlap"
  let ?n = "int (length text)"
  have step: "0 < ?step" using assms by simp
  have len: "0 < ?n" using py_strip_nonempty [OF assms(1)] by simp
  have r: "range_from 0 ?n ?step = 0 # range_from ?step ?n ?step"
    using range_from_first [OF len step] by simp
  have first: "py_slice text 0 (0 + chunk_size) = text"
    using py_slice_suffix [of 0 "text" chunk_size] assms(2) by simp
  have rest: "map (\<lambda>i. py_slice text i (i + chunk_size)) (range_from ?step ?n ?step) =
              map (\<lambda>i. drop (nat i) text) (range_from ?step ?n ?step)"
  proof (rule map_cong [OF refl])
    fix i assume "i \<in> set (range_from ?step ?n ?step)"
    then have "?step \<le> i \<and> i < ?n" using range_from_bounds [OF step] by blast
    with step assms(2) show "py_slice text i (i + chunk_size) = drop (nat i) text"
      by (intro py_slice_suffix) simp_all
  qed
  have "foldl (chunk_step text chunk_size) [] (range_from 0 ?n ?step) =
          filter (\<lambda>c. py_strip c \<noteq> [])
            (text # map (\<lambda>i. drop (nat i) text) (range_from ?step ?n ?step))"
    unfolding foldl_chunk_step r by (simp only: list.map first rest append_Nil)
  then have main: "chunk_text text chunk_size overlap =
           Inr (text # filter (\<lambda>c. py_strip c \<noteq> [])
                  (map (\<lambda>i. drop (nat i) text) (range_from ?step ?n ?step)))"
    using step assms(1) by (simp add: chunk_text_def py_range_def)
  moreover have "?n \<le> ?step \<longrightarrow> chunk_text text chunk_size overlap = Inr [text]"
    using main step by (simp add: range_from_empty)
  ultimately show ?thesis by blast
qed

theorem chunk_text_short_witness:
  "py_strip ''abc'' \<noteq> [] \<and> int (length ''abc'') < 4 \<and> (0::int) \<le> 1 \<and> (1::int) < 4
   \<and> chunk_text ''abc'' 4 1 = Inr [''abc'']"
proof -
  have h1: "py_strip ''abc'' \<noteq> []" by (simp add: py_strip_def py_isspace_def)
  have h2: "int (length ''abc'') < 4" by simp
  have h3: "int (length ''abc'') \<le> 4 - 1" by simp
  have h4: "(0::int) \<le> 1" and h5: "(1::int) < 4" by simp_all
  from chunk_text_short [OF h1 h2 h4 h5] h3 have "chunk_text ''abc'' 4 1 = Inr [''abc'']"
    by blast
  with h1 show ?thesis by simp
qed

text \<open>A text of three characters, size 4 and overlap 3: three chunks, not one.\<close>

theorem chunk_text_short_not_single:
  "py_strip ''abc'' \<noteq> [] \<and> int (length ''abc'') < 4 \<and> (0::int) \<le> 3 \<and> (3::int) < 4
   \<and> chunk_text ''abc'' 4 3 = Inr [''abc'', ''bc'', ''c'']
   \<and> chunk_text ''abc'' 4 3 \<noteq> Inr [''abc'']"
  by (simp add: chunk_eval)

section \<open>Properties of the data loader\<close>

text \<open>
  Claim C9: the result of \<^verbatim>\<open>load_pubmed_data\<close> (the returned documents and what is
  printed) does not depend on \<open>start_idx\<close> and \<open>num_samples\<close>: for the same dataset, any
  two pairs of arguments give the same result.
\<close>

theorem load_pubmed_data_ignores_window:
  "load_pubmed_data dataset start_idx num_samples = load_pubmed_data dataset start_idx' num_samples'"
  by (simp add: load_pubmed_data_def)

section \<open>Properties of the query methods\<close>

text \<open>
  Claim C4: when \<^verbatim>\<open>rag_chain\<close> has not been constructed, \<^verbatim>\<open>query\<close> raises the
  \<^verbatim>\<open>ValueError\<close> that says so, and consuming \<^verbatim>\<open>query_stream\<close> raises it before any
  fragment: no collaborator is called, no answer is produced, and the failure is not
  turned into a text response.
\<close>

theorem query_before_initialize:
  assumes "rag_chain self = None"
  shows "q_returned (query env self question) =
           Inl (ValueError ''RAG chain not initialized. Call initialize() first.'')
         \<and> q_calls (query env self question) = []
         \<and> s_raised (query_stream env self question) =
             Some (ValueError ''RAG chain not initialized. Call initialize() first.'')
         \<and> s_yielded (query_stream env self question) = []
         \<and> s_calls (query_stream env self question) = []"
  using assms by (simp add: query_def query_stream_def not_initialized_def)

theorem query_before_initialize_witness:
  "rag_chain (new_rag 0) = None
   \<and> q_returned (query example_env (new_rag 0) ''What is aspirin?'') =
       Inl (ValueError ''RAG chain not initialized. Call initialize() first.'')
   \<and> s_raised (query_stream example_env (new_rag 0) ''What is aspirin?'') =
       Some (ValueError ''RAG chain not initialized. Call initialize() first.'')
   \<and> s_yielded (query_stream example_env (new_rag 0) ''What is aspirin?'') = []"
proof -
  have h: "rag_chain (new_rag 0) = None" by (simp add: new_rag_def)
  from query_before_initialize [OF h, of example_env "''What is aspirin?''"] h
  show ?thesis by blast
qed

lemma stream_try_invoke_failed:
  "agent_invoke env chain (query_messages question) None = Inl e \<Longrightarrow>
   stream_try env self chain question =
     (PyStream [] (Some e), [AgentInvoke chain (query_messages question) None])"
  by (simp add: stream_try_def)

lemma stream_try_extract_failed:
  "agent_invoke env chain (query_messages question) None = Inr res \<Longrightarrow>
   extract_tool_outputs res = Inl e \<Longrightarrow>
   stream_try env self chain question =
     (PyStream [] (Some e), [AgentInvoke chain (query_messages question) None])"
  by (simp add: stream_try_def)

lemma stream_try_summarize:
  "agent_invoke env chain (query_messages question) None = Inr res \<Longrightarrow>
   extract_tool_outputs res = Inr info \<Longrightarrow>
   llm self = Some model \<Longrightarrow>
   stream_try env self chain question =
     (llm_stream env model (summarization_prompt question info),
      [AgentInvoke chain (query_messages question) None,
       LlmStream model (summarization_prompt question info)])"
  by (simp add: stream_try_def Let_def)

lemma query_stream_of_try:
  "rag_chain self = Some chain \<Longrightarrow>
   stream_try env self chain question = (st, calls) \<Longrightarrow>
   s_raised (query_stream env self question) = None
   \<and> s_calls (query_stream env self question) = calls
   \<and> s_yielded (query_stream env self question) =
       stream_items st @ (case stream_failure st of None \<Rightarrow> [] | Some e \<Rightarrow> [error_response e])"
  by (simp add: query_stream_def split: option.splits)

text \<open>
  Claim C2, as the code has it: on an initialized pipeline no exception leaves either
  method. \<^verbatim>\<open>query\<close> returns the text \<^verbatim>\<open>Error generating response: \<close> followed by
  the error. \<^verbatim>\<open>query_stream\<close> yields the fragments streamed before the failure
  followed by one fragment of that form: that fragment alone when the agent or the
  extraction fails, and after the fragments already streamed when the chat model's
  stream fails.
\<close>

theorem generation_errors_become_text:
  assumes "rag_chain self = Some chain"
  shows "(\<exists>answer. q_returned (query env self question) = Inr answer)
    \<and> s_raised (query_stream env self question) = None
    \<and> (\<forall>e. query_try env chain question = Inl e \<longrightarrow>
          q_returned (query env self question) = Inr (''Error generating response: '' @ exn_str e))
    \<and> (\<forall>e. agent_invoke env chain (query_messages question) None = Inl e \<longrightarrow>
          s_yielded (query_stream env self question) = [''Error generating response: '' @ exn_str e])
    \<and> (\<forall>res e. agent_invoke env chain (query_messages question) None = Inr res
            \<and> extract_tool_outputs res = Inl e \<longrightarrow>
          s_yielded (query_stream env self question) = [''Error generating response: '' @ exn_str e])
    \<and> (\<forall>res info model fragments e.
            agent_invoke env chain (query_messages question) None = Inr res
            \<and> extract_tool_outputs res = Inr info
            \<and> llm self = Some model
            \<and> llm_stream env model (summarization_prompt question info) = PyStream fragments (Some e) \<longrightarrow>
          s_yielded (query_stream env self question) =
            fragments @ [''Error generating response: '' @ exn_str e])"
proof (intro conjI allI impI)
  show "\<exists>answer. q_returned (query env self question) = Inr answer"
    using assms by (simp add: query_def split: sum.splits)
next
  obtain st calls where "stream_try env self chain question = (st, calls)"
    by (cases "stream_try env self chain question")
  from query_stream_of_try [OF assms this]
  show "s_raised (query_stream env self question) = None" by simp
next
  fix e assume "query_try env chain question = Inl e"
  with assms show "q_returned (query env self question) =
      Inr (''Error generating response: '' @ exn_str e)"
    by (simp add: query_def error_response_def)
next
  fix e assume "agent_invoke env chain (query_messages question) None = Inl e"
  from query_stream_of_try [OF assms stream_try_invoke_failed [OF this]]
  show "s_yielded (query_stream env self question) = [''Error generating response: '' @ exn_str e]"
    by (simp add: error_response_def)
next
  fix res e
  assume "agent_invoke env chain (query_messages question) None = Inr res
            \<and> extract_tool_outputs res = Inl e"
  then have "stream_try env self chain question =
     (PyStream [] (Some e), [AgentInvoke chain (query_messages question) None])"
    by (simp add: stream_try_extract_failed)
  from query_stream_of_try [OF assms this]
  show "s_yielded (query_stream env self question) = [''Error generating response: '' @ exn_str e]"
    by (simp add: error_response_def)
next
  fix res info model fragments e
  assume a: "agent_invoke env chain (query_messages question) None = Inr res
            \<and> extract_tool_outputs res = Inr info
            \<and> llm self = Some model
            \<and> llm_stream env model (summarization_prompt question info) = PyStream fragments (Some e)"
  then have "stream_try env self chain question =
     (PyStream fragments (Some e),
      [AgentInvoke chain (query_messages question) None,
       LlmStream model (summarization_prompt question info)])"
    using stream_try_summarize [of env chain question res info self model] by simp
  from query_stream_of_try [OF assms this]
  show "s_yielded (query_stream env self question) =
            fragments @ [''Error generating response: '' @ exn_str e]"
    by (simp add: error_response_def)
qed

lemma example_extract: "extract_tool_outputs example_result = Inr (evidence_transcript example_steps)"
  by (simp add: extract_tool_outputs_def example_result_def example_steps_def extract_query_def
      extract_output_def evidence_transcript_def step_transcript_def step_query_def step_output_def)

theorem generation_errors_become_text_witness:
  "rag_chain ready_rag = Some 10
   \<and> agent_invoke failing_agent_env 10 (query_messages ''q'') None = Inl (ExternalError ''no agent'')
   \<and> s_yielded (query_stream failing_agent_env ready_rag ''q'') =
       [''Error generating response: no agent'']
   \<and> s_raised (query_stream failing_agent_env ready_rag ''q'') = None"
proof -
  have h: "rag_chain ready_rag = Some 10" by (simp add: ready_rag_def)
  have f: "agent_invoke failing_agent_env 10 (query_messages ''q'') None = Inl (ExternalError ''no agent'')"
    by (simp add: failing_agent_env_def)
  from generation_errors_become_text [OF h, of failing_agent_env "''q''"] f
  have "s_yielded (query_stream failing_agent_env ready_rag ''q'') =
          [''Error generating response: '' @ exn_str (ExternalError ''no agent'')]
        \<and> s_raised (query_stream failing_agent_env ready_rag ''q'') = None"
    by blast
  with h f show ?thesis by simp
qed

text \<open>
  A chat model that fails after its first fragment: \<^verbatim>\<open>query_stream\<close> yields two
  fragments, the streamed one and the error.
\<close>

theorem stream_error_after_fragments:
  "rag_chain ready_rag = Some 10
   \<and> llm_stream failing_llm_env 9 (summarization_prompt ''q'' (evidence_transcript example_steps)) =
       PyStream [''Hel''] (Some (ExternalError ''boom''))
   \<and> s_yielded (query_stream failing_llm_env ready_rag ''q'') =
       [''Hel'', ''Error generating response: boom'']
   \<and> length (s_yielded (query_stream failing_llm_env ready_rag ''q'')) \<noteq> 1"
proof -
  have i: "agent_invoke failing_llm_env 10 (query_messages ''q'') None = Inr example_result"
    by (simp add: failing_llm_env_def example_env_def)
  have l: "llm_stream failing_llm_env 9 (summarization_prompt ''q'' (evidence_transcript example_steps)) =
       PyStream [''Hel''] (Some (ExternalError ''boom''))"
    by (simp add: failing_llm_env_def)
  have t: "stream_try failing_llm_env ready_rag 10 ''q'' =
     (PyStream [''Hel''] (Some (ExternalError ''boom'')),
      [AgentInvoke 10 (query_messages ''q'') None,
       LlmStream 9 (summarization_prompt ''q'' (evidence_transcript example_steps))])"
    using stream_try_summarize [OF i example_extract, of ready_rag 9] l
    by (simp add: ready_rag_def)
  have h: "rag_chain ready_rag = Some 10" by (simp add: ready_rag_def)
  from query_stream_of_try [OF h t]
  have "s_yielded (query_stream failing_llm_env ready_rag ''q'') =
       [''Hel'', ''Error generating response: boom'']"
    by (simp add: error_response_def)
  with h l show ?thesis by simp
qed

lemma key_in_dict: "k \<in> fst ` set kvs \<longleftrightarrow> map_of kvs k \<noteq> None"
  by (simp add: map_of_eq_None_iff)

lemma extract_query_step:
  "step_query s = Some v \<Longrightarrow>
   extract_query info s = Inr (info @ ''Tool query: '' @ py_str v @ NL)"
  by (cases s)
     (auto simp: step_query_def extract_query_def key_in_dict
           split: option.splits pyval.splits)

lemma extract_output_step:
  "step_output s = Some v \<Longrightarrow>
   extract_output info s = Inr (info @ ''Tool output: '' @ py_str v @ NL @ NL)"
  by (cases s)
     (auto simp: step_output_def extract_output_def key_in_dict
           split: option.splits pyval.splits)

lemma extract_steps_transcript:
  "\<forall>s\<in>set steps. step_query s \<noteq> None \<and> step_output s \<noteq> None \<Longrightarrow>
   extract_steps info steps = Inr (info @ evidence_transcript steps)"
proof (induction steps arbitrary: info)
  case Nil
  then show ?case by (simp add: evidence_transcript_def)
next
  case (Cons s steps)
  then obtain q out where q: "step_query s = Some q" and out: "step_output s = Some out"
    by auto
  have rest: "\<forall>s\<in>set steps. step_query s \<noteq> None \<and> step_output s \<noteq> None"
    using Cons.prems by simp
  show ?case
    using Cons.IH [OF rest] q out
    by (simp add: extract_query_step [OF q] extract_output_step [OF out]
        evidence_transcript_def step_transcript_def)
qed

lemma extract_tool_outputs_steps:
  "map_of kvs ''intermediate_steps'' = Some (PList r' steps) \<Longrightarrow>
   \<forall>s\<in>set steps. step_query s \<noteq> None \<and> step_output s \<noteq> None \<Longrightarrow>
   extract_tool_outputs (PDict r kvs) = Inr (evidence_transcript steps)"
  using extract_steps_transcript [of steps "[]"]
  by (simp add: extract_tool_outputs_def key_in_dict)

lemma str_contains_prefix: "str_contains k (k @ b)"
proof (cases "k @ b")
  case Nil
  then show ?thesis by simp
next
  case (Cons c cs)
  have "take (length k) (k @ b) = k" by simp
  with Cons show ?thesis by simp
qed

lemma str_contains_append: "str_contains k (a @ k @ b)"
  by (induction a) (simp_all add: str_contains_prefix)

lemma prompt_contains_question: "str_contains question (summarization_prompt question info)"
proof -
  have "summarization_prompt question info =
      (NL @ indent @ ''Based on the following information collected about the query: '' @ [CHR 0x22])
      @ question @
      ([CHR 0x22] @ NL @ indent @ NL @ indent @ info @ NL @ indent @ NL @ indent @
       ''Please provide a concise and accurate summary that directly answers the user's question.'' @ NL @ indent)"
    by (simp add: summarization_prompt_def)
  then show ?thesis by (simp only: str_contains_append)
qed

lemma prompt_contains_info: "str_contains info (summarization_prompt question info)"
proof -
  have "summarization_prompt question info =
      (NL @ indent @ ''Based on the following information collected about the query: '' @ [CHR 0x22]
       @ question @ [CHR 0x22] @ NL @ indent @ NL @ indent)
      @ info @
      (NL @ indent @ NL @ indent @
       ''Please provide a concise and accurate summary that directly answers the user's question.'' @ NL @ indent)"
    by (simp add: summarization_prompt_def)
  then show ?thesis by (simp only: str_contains_append)
qed

text \<open>
  The flow of \<^verbatim>\<open>query_stream\<close> on a result that does record the steps of the
  tool-invocation phase under \<^verbatim>\<open>intermediate_steps\<close>, each with its query and its
  output: one invocation of the agent (not streamed), the evidence transcript of all the
  steps, one request to the chat model with the prompt composed of the question and that
  transcript, and the fragments of that response and nothing else.
\<close>

theorem query_stream_single_summarization:
  assumes "rag_chain self = Some chain"
    and "llm self = Some model"
    and "agent_invoke env chain (query_messages question) None = Inr (PDict r kvs)"
    and "map_of kvs ''intermediate_steps'' = Some (PList r' steps)"
    and "\<forall>s\<in>set steps. step_query s \<noteq> None \<and> step_output s \<noteq> None"
    and "stream_failure (llm_stream env model
           (summarization_prompt question (evidence_transcript steps))) = None"
  shows "extract_tool_outputs (PDict r kvs) = Inr (evidence_transcript steps)
    \<and> s_calls (query_stream env self question) =
        [AgentInvoke chain (query_messages question) None,
         LlmStream model (summarization_prompt question (evidence_transcript steps))]
    \<and> str_contains question (summarization_prompt question (evidence_transcript steps))
    \<and> str_contains (evidence_transcript steps)
        (summarization_prompt question (evidence_transcript steps))
    \<and> s_yielded (query_stream env self question) =
        stream_items (llm_stream env model
          (summarization_prompt question (evidence_transcript steps)))
    \<and> s_raised (query_stream env self question) = None"
proof -
  have ex: "extract_tool_outputs (PDict r kvs) = Inr (evidence_transcript steps)"
    by (rule extract_tool_outputs_steps [OF assms(4) assms(5)])
  from query_stream_of_try [OF assms(1) stream_try_summarize [OF assms(3) ex assms(2)]] assms(6)
  have "s_raised (query_stream env self question) = None
    \<and> s_calls (query_stream env self question) =
        [AgentInvoke chain (query_messages question) None,
         LlmStream model (summarization_prompt question (evidence_transcript steps))]
    \<and> s_yielded (query_stream env self question) =
        stream_items (llm_stream env model
          (summarization_prompt question (evidence_transcript steps)))"
    by simp
  with ex prompt_contains_question prompt_contains_info show ?thesis by blast
qed

theorem query_stream_single_summarization_witness:
  "rag_chain ready_rag = Some 10 \<and> llm ready_rag = Some 9
   \<and> agent_invoke example_env 10 (query_messages ''q'') None = Inr example_result
   \<and> map step_query example_steps = [Some (PStr ''statins''), Some (PStr ''aspirin'')]
   \<and> map step_output example_steps = [Some (PStr ''doc A''), Some (PStr ''doc B'')]
   \<and> s_calls (query_stream example_env ready_rag ''q'') =
        [AgentInvoke 10 [(''human'', ''q'')] None,
         LlmStream 9 (summarization_prompt ''q''
           (''Tool query: statins'' @ NL @ ''Tool output: doc A'' @ NL @ NL @
            ''Tool query: aspirin'' @ NL @ ''Tool output: doc B'' @ NL @ NL))]
   \<and> s_yielded (query_stream example_env ready_rag ''q'') = [''Stat'', ''ins'']"
proof -
  have h1: "rag_chain ready_rag = Some 10" and h2: "llm ready_rag = Some 9"
    by (simp_all add: ready_rag_def)
  have h3: "agent_invoke example_env 10 (query_messages ''q'') None =
              Inr (PDict ''result'' [(''messages'', PList ''[]'' []),
                       (''intermediate_steps'', PList ''steps'' example_steps)])"
    by (simp add: example_env_def example_result_def)
  have h4: "map_of [(''messages'', PList ''[]'' []),
                       (''intermediate_steps'', PList ''steps'' example_steps)]
              ''intermediate_steps'' = Some (PList ''steps'' example_steps)"
    by simp
  have h5: "\<forall>s\<in>set example_steps. step_query s \<noteq> None \<and> step_output s \<noteq> None"
    by (simp add: example_steps_def step_query_def step_output_def)
  have h6: "stream_failure (llm_stream example_env 9
           (summarization_prompt ''q'' (evidence_transcript example_steps))) = None"
    by (simp add: example_env_def)
  have t: "evidence_transcript example_steps =
      ''Tool query: statins'' @ NL @ ''Tool output: doc A'' @ NL @ NL @
      ''Tool query: aspirin'' @ NL @ ''Tool output: doc B'' @ NL @ NL"
    by (simp add: evidence_transcript_def example_steps_def step_transcript_def
        step_query_def step_output_def)
  have l: "stream_items (llm_stream example_env 9
           (summarization_prompt ''q'' (evidence_transcript example_steps))) = [''Stat'', ''ins'']"
    by (simp add: example_env_def)
  from query_stream_single_summarization [OF h1 h2 h3 h4 h5 h6]
  have "s_calls (query_stream example_env ready_rag ''q'') =
        [AgentInvoke 10 (query_messages ''q'') None,
         LlmStream 9 (summarization_prompt ''q'' (evidence_transcript example_steps))]
      \<and> s_yielded (query_stream example_env ready_rag ''q'') =
        stream_items (llm_stream example_env 9
          (summarization_prompt ''q'' (evidence_transcript example_steps)))"
    by blast
  moreover have "map step_query example_steps = [Some (PStr ''statins''), Some (PStr ''aspirin'')]
      \<and> map step_output example_steps = [Some (PStr ''doc A''), Some (PStr ''doc B'')]"
    by (simp add: example_steps_def step_query_def step_output_def)
  ultimately show ?thesis
    using h1 h2 h3 t l by (simp add: query_messages_def example_result_def)
qed

text \<open>
  Claim C10: for an agent result without the key \<^verbatim>\<open>intermediate_steps\<close>,
  \<^verbatim>\<open>_extract_tool_outputs\<close> returns the empty string, and the prompt that
  \<^verbatim>\<open>query_stream\<close> sends to the chat model is the template with the question and an
  empty transcript.
\<close>

theorem no_intermediate_steps_no_evidence:
  assumes "''intermediate_steps'' \<notin> set (map fst kvs)"
  shows "extract_tool_outputs (PDict r kvs) = Inr []
    \<and> (rag_chain self = Some chain \<longrightarrow> llm self = Some model \<longrightarrow>
       agent_invoke env chain (query_messages question) None = Inr (PDict r kvs) \<longrightarrow>
         s_calls (query_stream env self question) =
           [AgentInvoke chain (query_messages question) None,
            LlmStream model (summarization_prompt question [])]
         \<and> str_contains question (summarization_prompt question []))"
proof -
  have ex: "extract_tool_outputs (PDict r kvs) = Inr []"
    using assms by (simp add: extract_tool_outputs_def)
  have "s_calls (query_stream env self question) =
           [AgentInvoke chain (query_messages question) None,
            LlmStream model (summarization_prompt question [])]"
    if "rag_chain self = Some chain" and "llm self = Some model"
      and "agent_invoke env chain (query_messages question) None = Inr (PDict r kvs)"
    using query_stream_of_try [OF that(1) stream_try_summarize [OF that(3) ex that(2)]]
    by simp
  with ex prompt_contains_question show ?thesis by blast
qed

theorem no_intermediate_steps_no_evidence_witness:
  "''intermediate_steps'' \<notin> set (map fst [(''messages'', PList ''[]'' [])])
   \<and> extract_tool_outputs messages_only_result = Inr []
   \<and> s_calls (query_stream messages_only_env ready_rag ''q'') =
       [AgentInvoke 10 [(''human'', ''q'')] None, LlmStream 9 (summarization_prompt ''q'' [])]"
proof -
  have h: "''intermediate_steps'' \<notin> set (map fst [(''messages'', PList ''[]'' [])])"
    by simp
  have h1: "rag_chain ready_rag = Some 10" and h2: "llm ready_rag = Some 9"
    by (simp_all add: ready_rag_def)
  have h3: "agent_invoke messages_only_env 10 (query_messages ''q'') None =
              Inr (PDict ''result'' [(''messages'', PList ''[]'' [])])"
    by (simp add: messages_only_env_def messages_only_result_def)
  from no_intermediate_steps_no_evidence [OF h, of "''result''" ready_rag 10 9 messages_only_env "''q''"]
    h1 h2 h3
  have "extract_tool_outputs (PDict ''result'' [(''messages'', PList ''[]'' [])]) = Inr []
    \<and> s_calls (query_stream messages_only_env ready_rag ''q'') =
           [AgentInvoke 10 (query_messages ''q'') None,
            LlmStream 9 (summarization_prompt ''q'' [])]"
    by blast
  with h show ?thesis by (simp add: messages_only_result_def query_messages_def)
qed

text \<open>
  Claim C3, evaluated on the result of an agent run that called the retriever tool
  (query \<^verbatim>\<open>statins\<close>, output \<^verbatim>\<open>doc A\<close>) and returns its messages only, as the agent
  that \<^verbatim>\<open>initialize\<close> builds does: \<^verbatim>\<open>_extract_tool_outputs\<close> finds no key
  \<^verbatim>\<open>intermediate_steps\<close>, so the transcript is empty and the one prompt sent to the
  chat model holds neither the tool's query nor its output.
\<close>

theorem tool_evidence_not_in_prompt:
  "py_getitem (react_messages ! 2) ''content'' = Inr (PStr ''doc A'')
   \<and> extract_tool_outputs react_result = Inr []
   \<and> s_calls (query_stream react_env ready_rag ''q'') =
       [AgentInvoke 10 [(''human'', ''q'')] None, LlmStream 9 (summarization_prompt ''q'' [])]
   \<and> \<not> str_contains ''doc A'' (summarization_prompt ''q'' [])
   \<and> \<not> str_contains ''statins'' (summarization_prompt ''q'' [])"
proof -
  have e: "extract_tool_outputs react_result = Inr []"
    by (simp add: extract_tool_outputs_def react_result_def)
  have i: "agent_invoke react_env 10 (query_messages ''q'') None = Inr react_result"
    by (simp add: react_env_def)
  have h: "rag_chain ready_rag = Some 10" and m: "llm ready_rag = Some 9"
    by (simp_all add: ready_rag_def)
  from query_stream_of_try [OF h stream_try_summarize [OF i e m]]
  have c: "s_calls (query_stream react_env ready_rag ''q'') =
       [AgentInvoke 10 [(''human'', ''q'')] None, LlmStream 9 (summarization_prompt ''q'' [])]"
    by (simp add: query_messages_def)
  have n: "\<not> str_contains ''doc A'' (summarization_prompt ''q'' [])
           \<and> \<not> str_contains ''statins'' (summarization_prompt ''q'' [])"
    by (simp add: summarization_prompt_def indent_def NL_def numeral_eq_Suc)
  have g: "py_getitem (react_messages ! 2) ''content'' = Inr (PStr ''doc A'')"
    by (simp add: react_messages_def)
  from g e c n show ?thesis by simp
qed

text \<open>
  Claim C1, evaluated on the example collaborators: \<^verbatim>\<open>query\<close> runs the agent with the
  config \<^verbatim>\<open>{"recursion_limit": 11}\<close>; \<^verbatim>\<open>query_stream\<close> invokes the agent with no
  config, so the configured limit does not reach the agent in streaming mode.
\<close>

theorem recursion_limit_only_in_query:
  "q_calls (query example_env ready_rag ''q'') =
     [AgentStream 10 [(''human'', ''q'')] (Some [(''recursion_limit'', 11)])]
   \<and> q_returned (query example_env ready_rag ''q'') = Inr ''Hello world''
   \<and> hd (s_calls (query_stream example_env ready_rag ''q'')) =
       AgentInvoke 10 [(''human'', ''q'')] None"
proof -
  have i: "agent_invoke example_env 10 (query_messages ''q'') None = Inr example_result"
    by (simp add: example_env_def)
  have h: "rag_chain ready_rag = Some 10" and m: "llm ready_rag = Some 9"
    by (simp_all add: ready_rag_def)
  from query_stream_of_try [OF h stream_try_summarize [OF i example_extract m]]
  have "hd (s_calls (query_stream example_env ready_rag ''q'')) =
       AgentInvoke 10 [(''human'', ''q'')] None"
    by (simp add: query_messages_def)
  moreover have "q_calls (query example_env ready_rag ''q'') =
     [AgentStream 10 [(''human'', ''q'')] (Some [(''recursion_limit'', 11)])]
     \<and> q_returned (query example_env ready_rag ''q'') = Inr ''Hello world''"
    by (simp add: query_def query_try_def example_env_def ready_rag_def query_messages_def
        query_config_def RECURSION_LIMIT_def str_add_def)
  ultimately show ?thesis by simp
qed

section \<open>Properties of initialization\<close>

lemma new_object_simp: "new_object c \<lparr>heap = h, supabase_vs_retriever = g\<rparr> =
   (length h, \<lparr>heap = h @ [c], supabase_vs_retriever = g\<rparr>)"
  by (simp add: new_object_def)

lemma initialize_ready:
  "initialize (\<lparr>heap = h, supabase_vs_retriever = g\<rparr>,
               \<lparr>llm = Some m, rag_chain = Some a, supabase_client = c\<rparr>) =
     (\<lparr>heap = h @ core_objects (length h) c, supabase_vs_retriever = Some (length h + 4)\<rparr>,
      \<lparr>llm = Some m, rag_chain = Some a, supabase_client = c\<rparr>)"
  by (simp add: initialize_def new_object_simp Let_def core_objects_def)

lemma initialize_new:
  "initialize (\<lparr>heap = h, supabase_vs_retriever = g\<rparr>,
               \<lparr>llm = None, rag_chain = None, supabase_client = c\<rparr>) =
     (\<lparr>heap = h @ core_objects (length h) c @
               [ChatModel,
                ReactAgent (Some (length h + 9)) [length h + 6, length h + 8] system_message],
        supabase_vs_retriever = Some (length h + 4)\<rparr>,
      \<lparr>llm = Some (length h + 9), rag_chain = Some (length h + 10), supabase_client = c\<rparr>)"
  by (simp add: initialize_def initialize_llm_def new_object_simp Let_def core_objects_def)

lemma initialize_no_chain:
  "initialize (\<lparr>heap = h, supabase_vs_retriever = g\<rparr>,
               \<lparr>llm = Some m, rag_chain = None, supabase_client = c\<rparr>) =
     (\<lparr>heap = h @ core_objects (length h) c @
               [ReactAgent (Some m) [length h + 6, length h + 8] system_message],
        supabase_vs_retriever = Some (length h + 4)\<rparr>,
      \<lparr>llm = Some m, rag_chain = Some (length h + 9), supabase_client = c\<rparr>)"
  by (simp add: initialize_def new_object_simp Let_def core_objects_def)

lemma initialize_no_llm:
  "initialize (\<lparr>heap = h, supabase_vs_retriever = g\<rparr>,
               \<lparr>llm = None, rag_chain = Some a, supabase_client = c\<rparr>) =
     (\<lparr>heap = h @ core_objects (length h) c @ [ChatModel],
        supabase_vs_retriever = Some (length h + 4)\<rparr>,
      \<lparr>llm = Some (length h + 9), rag_chain = Some a, supabase_client = c\<rparr>)"
  by (simp add: initialize_def initialize_llm_def new_object_simp Let_def core_objects_def)


text \<open>
  Claim C5, as the code has it: a second call of \<^verbatim>\<open>initialize\<close> leaves the chat model,
  the agent chain and the client of the instance unchanged and keeps every object of the
  process, but it constructs the nine core objects again (embedder, vector store, retriever
  with \<open>k = 2\<close> on the same client, the two tools) and rebinds the shared variable
  \<^verbatim>\<open>supabase_vs_retriever\<close> to the new retriever.
\<close>

theorem initialize_twice:
  "(let once = initialize ws; twice = initialize once; n = length (heap (fst once))
    in llm (snd twice) = llm (snd once)
       \<and> rag_chain (snd twice) = rag_chain (snd once)
       \<and> supabase_client (snd twice) = supabase_client (snd once)
       \<and> heap (fst twice) = heap (fst once) @ core_objects n (supabase_client (snd ws))
       \<and> supabase_vs_retriever (fst twice) = Some (n + 4)
       \<and> supabase_vs_retriever (fst twice) \<noteq> supabase_vs_retriever (fst once))"
proof -
  obtain w self where ws: "ws = (w, self)" by (cases ws)
  obtain h g where w: "w = \<lparr>heap = h, supabase_vs_retriever = g\<rparr>" by (cases w)
  obtain lm rc c where self: "self = \<lparr>llm = lm, rag_chain = rc, supabase_client = c\<rparr>"
    by (cases self)
  have len: "length (core_objects n c) = 9" for n by (simp add: core_objects_def)
  show ?thesis
  proof (cases lm)
    case None
    note lm = this
    show ?thesis
    proof (cases rc)
      case None
      then show ?thesis
        unfolding ws w self lm by (simp add: initialize_new initialize_ready Let_def len)
    next
      case (Some a)
      then show ?thesis
        unfolding ws w self lm by (simp add: initialize_no_llm initialize_ready Let_def len)
    qed
  next
    case (Some m)
    note lm = this
    show ?thesis
    proof (cases rc)
      case None
      then show ?thesis
        unfolding ws w self lm by (simp add: initialize_no_chain initialize_ready Let_def len)
    next
      case (Some a)
      then show ?thesis
        unfolding ws w self lm by (simp add: initialize_ready Let_def len)
    qed
  qed
qed

text \<open>
  On a new instance in an empty process the second call is not a no-op: the shared
  retriever is object 4 after the first call and object 15 after the second, and the
  process holds 20 objects instead of 11.
\<close>

theorem initialize_not_idempotent:
  "initialize (initialize (empty_world, new_rag 0)) \<noteq> initialize (empty_world, new_rag 0)
   \<and> supabase_vs_retriever (fst (initialize (empty_world, new_rag 0))) = Some 4
   \<and> supabase_vs_retriever (fst (initialize (initialize (empty_world, new_rag 0)))) = Some 15
   \<and> length (heap (fst (initialize (empty_world, new_rag 0)))) = 11
   \<and> length (heap (fst (initialize (initialize (empty_world, new_rag 0))))) = 20"
  by (simp add: empty_world_def new_rag_def initialize_new initialize_ready core_objects_def)

lemma initialize_gives_ready_rag: "snd (initialize (empty_world, new_rag 0)) = ready_rag"
  by (simp add: empty_world_def new_rag_def initialize_new ready_rag_def)

section \<open>Properties of the ingestion\<close>

lemma py_slice_window:
  assumes "0 \<le> i" and "0 \<le> n"
  shows "py_slice xs i (i + n) = take (nat n) (drop (nat i) xs)"
proof (cases "nat i + nat n \<le> length xs")
  case True
  with assms show ?thesis
    by (simp add: py_slice_def slice_bound_def Let_def min_def nat_add_distrib)
next
  case False
  then have "length (drop (nat i) xs) \<le> nat n" by simp
  then have "take (nat n) (drop (nat i) xs) = drop (nat i) xs" by (rule take_all)
  moreover from False assms have "py_slice xs i (i + n) = drop (nat i) xs"
    by (auto simp: py_slice_def slice_bound_def Let_def min_def nat_add_distrib)
  ultimately show ?thesis by simp
qed

lemma concat_windows:
  "0 \<le> a \<Longrightarrow> 0 < step \<Longrightarrow>
   concat (map (\<lambda>i. py_slice xs i (i + step)) (range_from a (int (length xs)) step)) =
     drop (nat a) xs"
proof (induction a "int (length xs)" step rule: range_from.induct)
  case (1 a step)
  show ?case
  proof (cases "a < int (length xs)")
    case True
    have "nat (a + step) = nat step + nat a"
      using "1.prems" by (simp add: nat_add_distrib)
    then have "drop (nat (a + step)) xs = drop (nat step) (drop (nat a) xs)"
      by (simp only: drop_drop)
    then have "take (nat step) (drop (nat a) xs) @ drop (nat (a + step)) xs = drop (nat a) xs"
      by (simp only: append_take_drop_id)
    then show ?thesis
      using True "1.prems" "1.hyps"
      by (simp add: range_from_first py_slice_window)
  next
    case False
    then show ?thesis using "1.prems" by (simp add: range_from_empty)
  qed
qed

lemma windows_split:
  "0 \<le> a \<Longrightarrow>
   map (\<lambda>i. py_slice xs i (i + 50)) (range_from a (int (length xs)) 50) =
     split_batches 50 (drop (nat a) xs)"
proof (induction a "int (length xs)" "50::int" rule: range_from.induct)
  case (1 a)
  show ?case
  proof (cases "a < int (length xs)")
    case True
    have d: "50 + nat a = nat (a + 50)"
      using "1.prems" by simp
    have ne: "drop (nat a) xs \<noteq> []" using True "1.prems" by simp
    have s: "py_slice xs a (a + 50) = take 50 (drop (nat a) xs)"
      using py_slice_window [of a 50 xs] "1.prems" by simp
    have "split_batches 50 (drop (nat a) xs) =
            take 50 (drop (nat a) xs) # split_batches 50 (drop (nat (a + 50)) xs)"
      using ne by (subst split_batches.simps) (simp add: d)
    moreover have "map (\<lambda>i. py_slice xs i (i + 50)) (range_from (a + 50) (int (length xs)) 50) =
        split_batches 50 (drop (nat (a + 50)) xs)"
      using "1.hyps" True "1.prems" by simp
    ultimately show ?thesis
      using True s by (simp add: range_from_first)
  next
    case False
    then have "drop (nat a) xs = []" by simp
    then have "split_batches 50 (drop (nat a) xs) = []"
      by (subst split_batches.simps) simp
    with False show ?thesis by (simp add: range_from_empty)
  qed
qed

lemma foldl_upsert_run:
  "0 \<le> a \<Longrightarrow> a mod 50 = 0 \<Longrightarrow>
   foldl (upsert_batch upsert xs) st (range_from a (int (length xs)) 50) =
     \<lparr>bs_db = fst (batch_run upsert (bs_db st) (a div 50 + 1)
                     (map (\<lambda>i. py_slice xs i (i + 50)) (range_from a (int (length xs)) 50))),
      bs_printed = bs_printed st @
         snd (batch_run upsert (bs_db st) (a div 50 + 1)
                (map (\<lambda>i. py_slice xs i (i + 50)) (range_from a (int (length xs)) 50))),
      bs_attempted = bs_attempted st @
         map (\<lambda>i. py_slice xs i (i + 50)) (range_from a (int (length xs)) 50)\<rparr>"
proof (induction a "int (length xs)" "50::int" arbitrary: st rule: range_from.induct)
  case (1 a)
  show ?case
  proof (cases "a < int (length xs)")
    case True
    let ?st = "upsert_batch upsert xs st a"
    let ?rest = "map (\<lambda>i. py_slice xs i (i + 50)) (range_from (a + 50) (int (length xs)) 50)"
    have r: "range_from a (int (length xs)) 50 = a # range_from (a + 50) (int (length xs)) 50"
      using True by (simp add: range_from_first)
    have n: "(a + 50) div 50 + 1 = a div 50 + 1 + 1" and m: "(a + 50) mod 50 = 0"
      using "1.prems" by simp_all
    have ih: "foldl (upsert_batch upsert xs) ?st (range_from (a + 50) (int (length xs)) 50) =
     \<lparr>bs_db = fst (batch_run upsert (bs_db ?st) (a div 50 + 1 + 1) ?rest),
      bs_printed = bs_printed ?st @ snd (batch_run upsert (bs_db ?st) (a div 50 + 1 + 1) ?rest),
      bs_attempted = bs_attempted ?st @ ?rest\<rparr>"
      using "1.hyps" [of ?st] True "1.prems" m by (simp add: n)
    obtain res db' where u: "upsert (bs_db st) (py_slice xs a (a + 50)) = (res, db')"
      by (cases "upsert (bs_db st) (py_slice xs a (a + 50))")
    have st: "?st = \<lparr>bs_db = db',
                     bs_printed = bs_printed st @
                       [case res of None \<Rightarrow> InsertedBatch (a div 50 + 1)
                        | Some e \<Rightarrow> ErrorInsertingBatch (a div 50 + 1) e],
                     bs_attempted = bs_attempted st @ [py_slice xs a (a + 50)]\<rparr>"
      by (cases res) (simp_all add: upsert_batch_def batch_size_def Let_def u)
    show ?thesis
      unfolding r by (simp add: ih) (simp add: st u Let_def)
  next
    case False
    then show ?thesis by (simp add: range_from_empty)
  qed
qed

text \<open>
  Claim C8: the batch loop is a batch-isolated run. Whatever the store's upsert does on
  each batch, fail or succeed, the loop hands it every batch of the data in order (the
  batches of 50 records, which together are the data), each in the state the store was
  left in by the batches before it, and prints for each batch that it was inserted when
  the upsert returned and the error when it raised, under the batch's number. A failure
  on batch \<open>j\<close> is thus caught and reported, the batches after it are still submitted,
  and the store ends with what the upserts that succeeded did. The last part says that this
  run, after what was printed before it, is the whole result of
  \<^verbatim>\<open>create_new_vector_store\<close> on the records it prepared.
\<close>

theorem batch_failure_does_not_abort:
  "upsert_batches upsert db data =
     \<lparr>bs_db = fst (batch_run upsert db 1 (split_batches 50 data)),
      bs_printed = snd (batch_run upsert db 1 (split_batches 50 data)),
      bs_attempted = split_batches 50 data\<rparr>
   \<and> concat (split_batches 50 data) = data
   \<and> (env_load_model env = None
        \<and> load_pubmed_data (env_dataset env) start_idx num_samples = (documents, out0)
        \<and> prepare_records (env_encode env) documents = (out1, Inr recs)
      \<longrightarrow> create_new_vector_store env store start_idx num_samples =
            \<lparr>bs_db = fst (batch_run (env_upsert env) store 1 (split_batches 50 recs)),
             bs_printed = out0 @ out1 @
               snd (batch_run (env_upsert env) store 1 (split_batches 50 recs)),
             bs_attempted = split_batches 50 recs\<rparr>)"
proof -
  have w: "map (\<lambda>i. py_slice xs i (i + 50)) (range_from 0 (int (length xs)) 50) =
             split_batches 50 xs" for xs :: "'x list"
    using windows_split [of 0 xs] by simp
  have a: "upsert_batches u d xs =
     \<lparr>bs_db = fst (batch_run u d 1 (split_batches 50 xs)),
      bs_printed = snd (batch_run u d 1 (split_batches 50 xs)),
      bs_attempted = split_batches 50 xs\<rparr>"
    for u :: "'y \<Rightarrow> 'x list \<Rightarrow> py_exn option \<times> 'y" and d xs
    using foldl_upsert_run [of 0 u xs "\<lparr>bs_db = d, bs_printed = [], bs_attempted = []\<rparr>"]
    by (simp add: upsert_batches_def batch_size_def w)
  have c: "concat (split_batches 50 data) = data"
    using concat_windows [of 0 50 data] by (simp add: w)
  have v: "create_new_vector_store env store start_idx num_samples =
            \<lparr>bs_db = fst (batch_run (env_upsert env) store 1 (split_batches 50 recs)),
             bs_printed = out0 @ out1 @
               snd (batch_run (env_upsert env) store 1 (split_batches 50 recs)),
             bs_attempted = split_batches 50 recs\<rparr>"
    if "env_load_model env = None"
      and "load_pubmed_data (env_dataset env) start_idx num_samples = (documents, out0)"
      and "prepare_records (env_encode env) documents = (out1, Inr recs)"
    using that by (simp add: create_new_vector_store_def a Let_def)
  from a [of upsert db data] c v show ?thesis by blast
qed

text \<open>
  A store that fails on the second of three batches: the first and the third are stored,
  the failure is printed under number 2.
\<close>

theorem batch_failure_does_not_abort_witness:
  "upsert_batches flaky_upsert [] [0..<101] =
     \<lparr>bs_db = [0..<50] @ [100],
      bs_printed =
        [InsertedBatch 1, ErrorInsertingBatch 2 (ExternalError ''timeout''), InsertedBatch 3],
      bs_attempted = [[0..<50], [50..<100], [100]]\<rparr>
   \<and> env_load_model example_ingest_env = None
   \<and> create_new_vector_store example_ingest_env [] 500 100 =
       \<lparr>bs_db = [\<lparr>rec_title = Some ''Topic'', rec_pmid = ''url-1'', rec_content = ''abc'',
          rec_chunk_id = 0, rec_original_id = Some ''url-1'', rec_total_chunks = 1,
          rec_embedding = 0\<rparr>],
        bs_printed = [InsertedBatch 1],
        bs_attempted = [[\<lparr>rec_title = Some ''Topic'', rec_pmid = ''url-1'', rec_content = ''abc'',
          rec_chunk_id = 0, rec_original_id = Some ''url-1'', rec_total_chunks = 1,
          rec_embedding = 0\<rparr>]]\<rparr>"
proof -
  let ?rec = "\<lparr>rec_title = Some ''Topic'', rec_pmid = ''url-1'', rec_content = ''abc'',
          rec_chunk_id = 0, rec_original_id = Some ''url-1'', rec_total_chunks = 1,
          rec_embedding = 0::nat\<rparr>"
  let ?doc = "\<lparr>doc_id = Some ''url-1'', doc_title = Some ''Topic'', doc_content = Some ''abc'',
          doc_contents = Some ''lesson'', doc_PMID = Some ''url-1''\<rparr>"
  have s: "split_batches 50 [0..<101] = [[0..<50], [50..<100], [100::nat]]"
    by (simp add: split_batches.simps)
  have s1: "split_batches 50 [?rec] = [[?rec]]"
    by (simp add: split_batches.simps)
  have m: "env_load_model example_ingest_env = None"
    by (simp add: example_ingest_env_def)
  have l: "load_pubmed_data (env_dataset example_ingest_env) 500 100 = ([?doc], [])"
    by (simp add: example_ingest_env_def load_pubmed_data_def format_item_def item_get_def)
  have p: "prepare_records (env_encode example_ingest_env) [?doc] = ([], Inr [?rec])"
    by (simp add: example_ingest_env_def chunk_text_default_def chunk_eval)
  from batch_failure_does_not_abort
    [of flaky_upsert "[]" "[0..<101]" example_ingest_env 500 100 "[?doc]" "[]" "[]" "[?rec]" "[]"]
    m l p
  have "upsert_batches flaky_upsert [] [0..<101] =
     \<lparr>bs_db = fst (batch_run flaky_upsert [] 1 (split_batches 50 [0..<101])),
      bs_printed = snd (batch_run flaky_upsert [] 1 (split_batches 50 [0..<101])),
      bs_attempted = split_batches 50 [0..<101]\<rparr>
    \<and> create_new_vector_store example_ingest_env [] 500 100 =
            \<lparr>bs_db = fst (batch_run (env_upsert example_ingest_env) [] 1 (split_batches 50 [?rec])),
             bs_printed = [] @ [] @
               snd (batch_run (env_upsert example_ingest_env) [] 1 (split_batches 50 [?rec])),
             bs_attempted = split_batches 50 [?rec]\<rparr>"
    by blast
  then show ?thesis
    unfolding s s1 using m by (simp add: flaky_upsert_def example_ingest_env_def Let_def)
qed

end
